theory Spec2Isabelle
  imports Main "HOL-Library.AList"
begin

section \<open>JavaScript values\<close>

text \<open>
  The registry and search responses, the lookup cache and the manifest are untyped
  (\<^verbatim>\<open>any\<close>) in \<^verbatim>\<open>src/index.ts\<close>; they hold whatever \<^verbatim>\<open>JSON.parse\<close>
  produced. A value is therefore a JSON value, or \<^verbatim>\<open>undefined\<close> (the result of
  reading a property that is not there). The program does three things with a number: it
  tests it for zero, compares it with zero, and turns it into a string; so a number is
  modelled by its sign and by the string JavaScript prints for it (\<^verbatim>\<open>1e21\<close> is
  \<open>JNum IsPositive ''1e+21''\<close>). An object is the list of its own properties in
  enumeration order, with distinct keys.
\<close>

datatype numsign = IsNegative | IsZero | IsPositive

datatype jsval =
    JUndefined
  | JNull
  | JBool bool
  | JNum numsign string
  | JStr string
  | JArr "jsval list"
  | JObj "(string \<times> jsval) list"

datatype error = TypeError | SyntaxError | NetworkError | ProcessExit

text \<open>\<^verbatim>\<open>if (v)\<close>, \<^verbatim>\<open>v || w\<close>, \<^verbatim>\<open>!v\<close>: the truth value of a JavaScript value.\<close>

fun truthy :: "jsval \<Rightarrow> bool" where
  "truthy JUndefined = False"
| "truthy JNull = False"
| "truthy (JBool b) = b"
| "truthy (JNum sg txt) = (sg \<noteq> IsZero)"
| "truthy (JStr s) = (s \<noteq> [])"
| "truthy (JArr xs) = True"
| "truthy (JObj kvs) = True"

fun nullish :: "jsval \<Rightarrow> bool" where
  "nullish JUndefined = True"
| "nullish JNull = True"
| "nullish v = False"

text \<open>Decimal digits of a natural number, as \<^verbatim>\<open>String(n)\<close> prints an array index.\<close>

function show_nat :: "nat \<Rightarrow> string" where
  "show_nat n =
     (if n < 10 then [''0123456789'' ! n]
      else show_nat (n div 10) @ [''0123456789'' ! (n mod 10)])"
  by pat_completeness auto
termination
  by (relation "measure (\<lambda>n. n)") auto

declare show_nat.simps [simp del]

text \<open>The number of elements of an array or of characters of a string, as a value.\<close>

definition js_nat :: "nat \<Rightarrow> jsval" where
  "js_nat n = JNum (if n = 0 then IsZero else IsPositive) (show_nat n)"

fun join_comma :: "string list \<Rightarrow> string" where
  "join_comma [] = []"
| "join_comma [s] = s"
| "join_comma (s # t # ss) = s @ '','' @ join_comma (t # ss)"

text \<open>
  The string a value becomes when it is used as a property key (\<^verbatim>\<open>versions[latest]\<close>)
  or inside a template literal: \<^verbatim>\<open>undefined\<close> becomes the key \<^verbatim>\<open>"undefined"\<close>, an
  array the comma-joined strings of its elements.
\<close>

fun to_key :: "jsval \<Rightarrow> string" where
  "to_key JUndefined = ''undefined''"
| "to_key JNull = ''null''"
| "to_key (JBool b) = (if b then ''true'' else ''false'')"
| "to_key (JNum sg txt) = txt"
| "to_key (JStr s) = s"
| "to_key (JArr xs) = join_comma (map (\<lambda>x. if nullish x then [] else to_key x) xs)"
| "to_key (JObj kvs) = ''[object Object]''"

text \<open>
  Reading property \<open>k\<close> of a value that is neither \<^verbatim>\<open>null\<close> nor \<^verbatim>\<open>undefined\<close>.
  Only own properties are modelled: the inherited ones (\<^verbatim>\<open>constructor\<close>,
  \<^verbatim>\<open>toString\<close>, ...) are functions or prototype objects, never reached through the
  fixed keys the program reads, and a function reached through the computed key
  \<^verbatim>\<open>versions[latest]\<close> has no \<^verbatim>\<open>deprecated\<close> property, as \<^verbatim>\<open>undefined\<close> has none.
\<close>

definition own_prop :: "jsval \<Rightarrow> string \<Rightarrow> jsval" where
  "own_prop v k =
     (case v of
        JObj kvs \<Rightarrow> (case map_of kvs k of Some x \<Rightarrow> x | None \<Rightarrow> JUndefined)
      | JArr xs \<Rightarrow>
          (if k = ''length'' then js_nat (length xs)
           else (case find (\<lambda>i. show_nat i = k) [0..<length xs] of
                   Some i \<Rightarrow> xs ! i | None \<Rightarrow> JUndefined))
      | JStr s \<Rightarrow>
          (if k = ''length'' then js_nat (length s)
           else (case find (\<lambda>i. show_nat i = k) [0..<length s] of
                   Some i \<Rightarrow> JStr [s ! i] | None \<Rightarrow> JUndefined))
      | _ \<Rightarrow> JUndefined)"

text \<open>
  The order in which an object enumerates its own properties (\<^verbatim>\<open>Object.keys\<close>,
  \<^verbatim>\<open>JSON.stringify\<close>): first the keys that are array indices, by their number, then the
  other keys in the order in which they were added. An array index is the decimal string,
  without a leading zero, of a number below 4294967295.
\<close>

definition read_nat :: "string \<Rightarrow> nat" where
  "read_nat k = foldl (\<lambda>acc c. 10 * acc + (of_char c - 48)) 0 k"

definition array_index :: "string \<Rightarrow> nat option" where
  "array_index k =
     (if show_nat (read_nat k) = k \<and> read_nat k < 4294967295 then Some (read_nat k) else None)"

fun insert_index :: "nat \<Rightarrow> string \<times> jsval \<Rightarrow> (string \<times> jsval) list \<Rightarrow> (string \<times> jsval) list" where
  "insert_index n kv [] = [kv]"
| "insert_index n kv (p # ps) =
     (case array_index (fst p) of
        Some i \<Rightarrow> if i < n then p # insert_index n kv ps else kv # p # ps
      | None \<Rightarrow> kv # p # ps)"

text \<open>
  Giving an object the own property \<open>k\<close> with value \<open>v\<close>, as the spread of line 130 does
  for every property it copies: a property that is there keeps its place and takes the
  value, a new one goes to its place in the order.
\<close>

definition put_own :: "string \<Rightarrow> jsval \<Rightarrow> (string \<times> jsval) list \<Rightarrow> (string \<times> jsval) list" where
  "put_own k v kvs =
     (case map_of kvs k of
        Some old \<Rightarrow> AList.update k v kvs
      | None \<Rightarrow>
          (case array_index k of
             Some n \<Rightarrow> insert_index n (k, v) kvs
           | None \<Rightarrow> kvs @ [(k, v)]))"

text \<open>
  The assignment \<^verbatim>\<open>obj[k] = v\<close> on an object made by \<^verbatim>\<open>JSON.parse\<close>. It sets or adds the
  own property, but for one key: the object inherits a setter named \<^verbatim>\<open>__proto__\<close>, so
  assigning to that key, when the object has no own property of the name, adds no
  property (the setter changes the prototype, or does nothing when \<open>v\<close> is a string).
\<close>

definition assign_prop :: "string \<Rightarrow> jsval \<Rightarrow> (string \<times> jsval) list \<Rightarrow> (string \<times> jsval) list" where
  "assign_prop k v kvs =
     (if k = ''__proto__'' \<and> map_of kvs k = None then kvs else put_own k v kvs)"

text \<open>\<^verbatim>\<open>v[k]\<close> and \<^verbatim>\<open>v.k\<close> raise a TypeError on \<^verbatim>\<open>null\<close> and \<^verbatim>\<open>undefined\<close>.\<close>

definition get_prop :: "jsval \<Rightarrow> string \<Rightarrow> error + jsval" where
  "get_prop v k = (if nullish v then Inl TypeError else Inr (own_prop v k))"

text \<open>\<^verbatim>\<open>v?.k\<close> and \<^verbatim>\<open>v?.[k]\<close> give \<^verbatim>\<open>undefined\<close> there instead.\<close>

definition opt_prop :: "jsval \<Rightarrow> string \<Rightarrow> jsval" where
  "opt_prop v k = (if nullish v then JUndefined else own_prop v k)"

text \<open>
  \<^verbatim>\<open>v > 0\<close>. A string operand is read as a number by the JavaScript engine; that reading
  is the parameter \<open>sp\<close> (\<open>sp s\<close> holds when \<open>s\<close> reads as a positive number). An array
  is first turned into its string, an object into \<^verbatim>\<open>"[object Object]"\<close>, which reads as
  NaN.
\<close>

fun gt_zero :: "(string \<Rightarrow> bool) \<Rightarrow> jsval \<Rightarrow> bool" where
  "gt_zero sp JUndefined = False"
| "gt_zero sp JNull = False"
| "gt_zero sp (JBool b) = b"
| "gt_zero sp (JNum sg txt) = (sg = IsPositive)"
| "gt_zero sp (JStr s) = sp s"
| "gt_zero sp (JArr xs) = sp (to_key (JArr xs))"
| "gt_zero sp (JObj kvs) = False"

section \<open>The environment and the process state\<close>

text \<open>What an HTTPS request ends in: the \<^verbatim>\<open>error\<close> event, a body that \<^verbatim>\<open>JSON.parse\<close>
  rejects, or a body with its parsed value.\<close>

datatype response = NetError | Unparsable | Parsed jsval

text \<open>
  The collaborators the program talks to. \<open>net e n url\<close> is the outcome of the request
  for \<open>url\<close> issued after \<open>n\<close> earlier requests (so the registry may change between two
  requests); \<open>operator e n q\<close> is the line typed in answer to question \<open>q\<close>, asked after
  \<open>n\<close> earlier questions; \<open>lockfile e f\<close> tells whether file \<open>f\<close> exists in the working
  directory; \<open>str_positive\<close> is the engine's reading of strings as numbers (see
  \<open>gt_zero\<close>).
\<close>

record env =
  net :: "nat \<Rightarrow> string \<Rightarrow> response"
  operator :: "nat \<Rightarrow> string \<Rightarrow> string"
  lockfile :: "string \<Rightarrow> bool"
  str_positive :: "string \<Rightarrow> bool"

text \<open>A manifest section maps package names to version specifiers, in stored order.\<close>

type_synonym deps = "(string \<times> jsval) list"

text \<open>
  \<^verbatim>\<open>package.json\<close>: the two sections the program reads (\<open>None\<close> when \<^verbatim>\<open>pkg[section]\<close>
  is missing or falsy) and its other members, which the program never touches.
\<close>

record manifest =
  dependencies :: "deps option"
  devDependencies :: "deps option"
  other :: "(string \<times> jsval) list"

datatype spin = SpinStart string | SpinSucceed string | SpinFail string | SpinStop string

text \<open>
  The variable \<^verbatim>\<open>cache\<close> holds \<^verbatim>\<open>{}\<close> or what \<^verbatim>\<open>JSON.parse\<close> made of the cache file
  (lines 14-24): \<^verbatim>\<open>null\<close>, a primitive (a boolean, a number or a string), or an object
  or array, which is a store of values under keys. The keys the program uses begin with
  \<^verbatim>\<open>npmInfo:\<close> or \<^verbatim>\<open>alt:\<close>, so none is an array index or \<^verbatim>\<open>length\<close>.
\<close>

datatype cache_var = CNull | CPrimitive | CStore "string \<Rightarrow> jsval option"

text \<open>
  Everything the process can change: the variable \<^verbatim>\<open>cache\<close>, the requests sent, the
  questions asked, the spinner lines shown, \<^verbatim>\<open>package.json\<close> on disk (\<open>None\<close>: no such
  file), the manifests written to it and the install commands run. Writing a file
  (\<^verbatim>\<open>saveCache\<close>, \<^verbatim>\<open>writePackageJson\<close>) is taken to succeed.
\<close>

record state =
  cache :: cache_var
  requests :: "string list"
  prompts :: "string list"
  spinner :: "spin list"
  pkg_file :: "manifest option"
  writes :: "manifest list"
  installs :: "string list"

section \<open>Lookups\<close>

text \<open>
  \<^verbatim>\<open>loadCache\<close>, lines 16-24: a missing file leaves \<^verbatim>\<open>{}\<close>, a file that does not parse
  gives \<^verbatim>\<open>{}\<close>, and a file that parses gives its value, whatever it is.
\<close>

datatype cache_file = NoFile | BadJson | Json jsval

definition loadCache :: "cache_file \<Rightarrow> cache_var" where
  "loadCache f =
     (case f of
        NoFile \<Rightarrow> CStore Map.empty
      | BadJson \<Rightarrow> CStore Map.empty
      | Json v \<Rightarrow>
          (case v of
             JObj kvs \<Rightarrow> CStore (map_of kvs)
           | JArr xs \<Rightarrow> CStore (map_of (zip (map show_nat [0..<length xs]) xs))
           | JNull \<Rightarrow> CNull
           | JUndefined \<Rightarrow> CNull
           | _ \<Rightarrow> CPrimitive))"

text \<open>The value the cache holds under a key: \<^verbatim>\<open>undefined\<close> when the key is not there, and
  when the cache is no store.\<close>

definition cache_get :: "state \<Rightarrow> string \<Rightarrow> jsval" where
  "cache_get s k =
     (case cache s of
        CStore m \<Rightarrow> (case m k of Some v \<Rightarrow> v | None \<Rightarrow> JUndefined)
      | CPrimitive \<Rightarrow> JUndefined
      | CNull \<Rightarrow> JUndefined)"

text \<open>The expression \<^verbatim>\<open>cache[key]\<close>: it raises a TypeError when the cache is \<^verbatim>\<open>null\<close>.\<close>

definition cache_read :: "state \<Rightarrow> string \<Rightarrow> error + jsval" where
  "cache_read s k =
     (case cache s of
        CNull \<Rightarrow> Inl TypeError
      | CPrimitive \<Rightarrow> Inr (cache_get s k)
      | CStore m \<Rightarrow> Inr (cache_get s k))"

text \<open>
  \<^verbatim>\<open>cache[key] = v; saveCache()\<close>. The file is a module, so its code is strict: the
  assignment raises a TypeError when the cache is \<^verbatim>\<open>null\<close> or a primitive.
\<close>

definition cache_write :: "string \<Rightarrow> jsval \<Rightarrow> state \<Rightarrow> error + state" where
  "cache_write k v s =
     (case cache s of
        CStore m \<Rightarrow> Inr (s\<lparr>cache := CStore (m(k \<mapsto> v))\<rparr>)
      | CPrimitive \<Rightarrow> Inl TypeError
      | CNull \<Rightarrow> Inl TypeError)"

text \<open>One HTTPS request: what the network answers, and the request added to those sent.\<close>

definition request :: "env \<Rightarrow> string \<Rightarrow> state \<Rightarrow> response \<times> state" where
  "request e url s = (net e (length (requests s)) url, s\<lparr>requests := requests s @ [url]\<rparr>)"

text \<open>The two template literals of lines 48 and 69.\<close>

definition registry_url :: "string \<Rightarrow> string" where
  "registry_url p = ''https://registry.npmjs.org/'' @ p"

definition search_url :: "string \<Rightarrow> string" where
  "search_url p = ''https://api.npms.io/v2/search?q='' @ p @ ''+replacement''"

text \<open>
  \<^verbatim>\<open>fetchNpmInfo(pkg, refresh)\<close>, lines 44-63. \<open>Inr\<close> is the value the promise resolves
  with; \<open>Inl\<close> is what the caller gets instead, when the promise rejects or when line 45
  raises before there is a promise. The first \<^verbatim>\<open>case\<close> is the test
  \<^verbatim>\<open>!refresh && cache[key]\<close>, which is \<^verbatim>\<open>false\<close> without a look at the cache when
  \<^verbatim>\<open>refresh\<close> is set.
\<close>

definition fetchNpmInfo :: "env \<Rightarrow> string \<Rightarrow> bool \<Rightarrow> state \<Rightarrow> (error + jsval) \<times> state" where
  "fetchNpmInfo e p rf s =
     (case (if rf then Inr (JBool False) else cache_read s (''npmInfo:'' @ p)) of
        Inl err \<Rightarrow> (Inl err, s)
      | Inr c \<Rightarrow>
          if truthy c then (Inr c, s)
          else (case request e (registry_url p) s of
                  (NetError, s1) \<Rightarrow> (Inl NetworkError, s1)
                | (Unparsable, s1) \<Rightarrow> (Inl SyntaxError, s1)
                | (Parsed v, s1) \<Rightarrow>
                    (case cache_write (''npmInfo:'' @ p) v s1 of
                       Inl err \<Rightarrow> (Inl err, s1)
                     | Inr s2 \<Rightarrow> (Inr v, s2))))"

text \<open>
  The body of the \<^verbatim>\<open>try\<close> in \<^verbatim>\<open>fetchAlternative\<close>, lines 75-78, up to the suggestion:
  \<^verbatim>\<open>parsed.results\<close> raises on a \<^verbatim>\<open>null\<close> response, and \<^verbatim>\<open>results[0].package\<close> on a
  \<^verbatim>\<open>null\<close> first result.
\<close>

definition suggestion_of :: "(string \<Rightarrow> bool) \<Rightarrow> jsval \<Rightarrow> error + jsval" where
  "suggestion_of sp parsed =
     (case get_prop parsed ''results'' of
        Inl err \<Rightarrow> Inl err
      | Inr rs \<Rightarrow>
          if truthy rs \<and> gt_zero sp (own_prop rs ''length'') then
            (case get_prop (own_prop rs ''0'') ''package'' of
               Inl err \<Rightarrow> Inl err
             | Inr pk \<Rightarrow>
                 (let nm = opt_prop pk ''name''
                  in Inr (if truthy nm then nm else JNull)))
          else Inr JNull)"

text \<open>
  \<^verbatim>\<open>fetchAlternative(pkg, refresh)\<close>, lines 65-88. Line 66 is outside the promise and
  its \<^verbatim>\<open>try\<close>: with the cache \<^verbatim>\<open>null\<close> it raises to the caller. The \<^verbatim>\<open>catch\<close> and
  the \<^verbatim>\<open>error\<close> handler resolve with \<^verbatim>\<open>null\<close> and write nothing to the cache; the
  \<^verbatim>\<open>catch\<close> also takes the TypeError of the assignment of line 79.
\<close>

definition fetchAlternative :: "env \<Rightarrow> string \<Rightarrow> bool \<Rightarrow> state \<Rightarrow> (error + jsval) \<times> state" where
  "fetchAlternative e p rf s =
     (case (if rf then Inr (JBool False) else cache_read s (''alt:'' @ p)) of
        Inl err \<Rightarrow> (Inl err, s)
      | Inr c \<Rightarrow>
          if truthy c then (Inr c, s)
          else (case request e (search_url p) s of
                  (NetError, s1) \<Rightarrow> (Inr JNull, s1)
                | (Unparsable, s1) \<Rightarrow> (Inr JNull, s1)
                | (Parsed v, s1) \<Rightarrow>
                    (case suggestion_of (str_positive e) v of
                       Inl err \<Rightarrow> (Inr JNull, s1)
                     | Inr sg \<Rightarrow>
                         (case cache_write (''alt:'' @ p) sg s1 of
                            Inl err \<Rightarrow> (Inr JNull, s1)
                          | Inr s2 \<Rightarrow> (Inr sg, s2)))))"

text \<open>
  Lines 140-142 and 200-202, the same in the scanner and the migrator:
  \<^verbatim>\<open>info["dist-tags"]?.latest\<close> and \<^verbatim>\<open>info.versions?.[latest]?.deprecated\<close>.
\<close>

definition deprecatedMsg :: "jsval \<Rightarrow> error + jsval" where
  "deprecatedMsg info =
     (case get_prop info ''dist-tags'' of
        Inl err \<Rightarrow> Inl err
      | Inr dt \<Rightarrow>
          (let latest = opt_prop dt ''latest''
           in Inr (opt_prop (opt_prop (own_prop info ''versions'') (to_key latest)) ''deprecated'')))"

section \<open>The operator\<close>

text \<open>
  \<^verbatim>\<open>answer.toLowerCase().startsWith("y")\<close>, line 125, on the bytes of the answer: the
  letters \<^verbatim>\<open>A\<close> to \<^verbatim>\<open>Z\<close> are lowered, every other byte is kept (no character but
  \<^verbatim>\<open>Y\<close> lowers to \<^verbatim>\<open>y\<close>).
\<close>

definition toLowerCase :: "string \<Rightarrow> string" where
  "toLowerCase s =
     map (\<lambda>c. case map_of (zip ''ABCDEFGHIJKLMNOPQRSTUVWXYZ'' ''abcdefghijklmnopqrstuvwxyz'') c of
                 Some l \<Rightarrow> l | None \<Rightarrow> c) s"

definition startsWith :: "string \<Rightarrow> string \<Rightarrow> bool" where
  "startsWith s pre = (take (length pre) s = pre)"

text \<open>\<^verbatim>\<open>askQuestion\<close>, lines 111-126: the question is shown and the next line typed is
  read.\<close>

definition askQuestion :: "env \<Rightarrow> string \<Rightarrow> state \<Rightarrow> bool \<times> state" where
  "askQuestion e query s =
     (startsWith (toLowerCase (operator e (length (prompts s)) query)) ''y'',
      s\<lparr>prompts := prompts s @ [query]\<rparr>)"

section \<open>Writing the manifest and reinstalling\<close>

text \<open>\<^verbatim>\<open>writePackageJson\<close>, lines 39-42, and \<^verbatim>\<open>detectPackageManager\<close>, lines 90-96.\<close>

definition writePackageJson :: "manifest \<Rightarrow> state \<Rightarrow> state" where
  "writePackageJson p s = s\<lparr>pkg_file := Some p, writes := writes s @ [p]\<rparr>"

definition detectPackageManager :: "env \<Rightarrow> string" where
  "detectPackageManager e =
     (if lockfile e ''yarn.lock'' then ''yarn''
      else if lockfile e ''pnpm-lock.yaml'' then ''pnpm''
      else if lockfile e ''bun.lockb'' then ''bun''
      else ''npm'')"

text \<open>\<^verbatim>\<open>runInstall\<close>, lines 98-109; a failing install is caught and only logged.\<close>

definition install_command :: "string \<Rightarrow> string" where
  "install_command pm =
     (if pm = ''yarn'' then ''yarn install''
      else if pm = ''pnpm'' then ''pnpm install''
      else if pm = ''bun'' then ''bun install''
      else ''npm install'')"

definition runInstall :: "string \<Rightarrow> state \<Rightarrow> state" where
  "runInstall pm s = s\<lparr>installs := installs s @ [install_command pm]\<rparr>"

section \<open>The scanner\<close>

text \<open>An entry of the scanner's \<^verbatim>\<open>results\<close>: \<^verbatim>\<open>{dependency, deprecated: true, message,
  alternative}\<close> or \<^verbatim>\<open>{dependency, deprecated: false}\<close>.\<close>

datatype verdict = Deprecated string jsval jsval | Healthy string

record scan =
  verdicts :: "verdict list"
  deprecatedCount :: int
  scan_world :: state

text \<open>A line of a spinner: \<^verbatim>\<open>start\<close>, \<^verbatim>\<open>succeed\<close>, \<^verbatim>\<open>fail\<close> or \<^verbatim>\<open>stop\<close>.\<close>

definition log_spin :: "spin \<Rightarrow> state \<Rightarrow> state" where
  "log_spin ev s = s\<lparr>spinner := spinner s @ [ev]\<rparr>"

text \<open>\<^verbatim>\<open>{ ...(pkg.dependencies || {}), ...(pkg.devDependencies || {}) }\<close>, line 130: a name
  of both sections keeps its first position and takes the second value.\<close>

definition spread :: "deps option \<Rightarrow> deps option \<Rightarrow> deps" where
  "spread a b =
     foldl (\<lambda>acc (k, v). put_own k v acc)
       (foldl (\<lambda>acc (k, v). put_own k v acc) [] (case a of Some x \<Rightarrow> x | None \<Rightarrow> []))
       (case b of Some y \<Rightarrow> y | None \<Rightarrow> [])"

text \<open>The body of the scanner's loop, lines 138-170.\<close>

definition scan_dep :: "env \<Rightarrow> bool \<Rightarrow> bool \<Rightarrow> string \<Rightarrow> scan \<Rightarrow> scan" where
  "scan_dep e js rf dep sc =
     (case fetchNpmInfo e dep rf (log_spin (SpinStart dep) (scan_world sc)) of
        (Inl err, w1) \<Rightarrow> sc\<lparr>scan_world := log_spin (SpinFail dep) w1\<rparr>
      | (Inr info, w1) \<Rightarrow>
          (case deprecatedMsg info of
             Inl err \<Rightarrow> sc\<lparr>scan_world := log_spin (SpinFail dep) w1\<rparr>
           | Inr msg \<Rightarrow>
               if truthy msg then
                 (case fetchAlternative e dep rf w1 of
                    (Inl err, w2) \<Rightarrow>
                      sc\<lparr>deprecatedCount := deprecatedCount sc + 1,
                         scan_world := log_spin (SpinFail dep) w2\<rparr>
                  | (Inr alt, w2) \<Rightarrow>
                      sc\<lparr>verdicts := verdicts sc @ [Deprecated dep msg alt],
                         deprecatedCount := deprecatedCount sc + 1,
                         scan_world := log_spin (SpinStop dep) w2\<rparr>)
               else
                 sc\<lparr>verdicts := (if js then verdicts sc @ [Healthy dep] else verdicts sc),
                    scan_world := log_spin (SpinSucceed dep) w1\<rparr>))"

fun scan_deps :: "env \<Rightarrow> bool \<Rightarrow> bool \<Rightarrow> string list \<Rightarrow> scan \<Rightarrow> scan" where
  "scan_deps e js rf [] sc = sc"
| "scan_deps e js rf (dep # ds) sc = scan_deps e js rf ds (scan_dep e js rf dep sc)"

text \<open>The three lines of the summary, lines 178-180.\<close>

record summary =
  total :: int
  deprecated_found :: int
  healthy :: int

text \<open>
  \<^verbatim>\<open>scanDependencies({jsonOutput, refresh})\<close>, lines 128-182. Without \<^verbatim>\<open>package.json\<close>
  the process exits; the summary is printed unless the output is JSON.
\<close>

definition scanDependencies :: "env \<Rightarrow> bool \<Rightarrow> bool \<Rightarrow> state \<Rightarrow> error + scan \<times> summary option" where
  "scanDependencies e js rf s =
     (case pkg_file s of
        None \<Rightarrow> Inl ProcessExit
      | Some p \<Rightarrow>
          (let ks = map fst (spread (dependencies p) (devDependencies p));
               sc = scan_deps e js rf ks \<lparr>verdicts = [], deprecatedCount = 0, scan_world = s\<rparr>
           in Inr (sc,
                if js then None
                else Some \<lparr>total = int (length ks), deprecated_found = deprecatedCount sc,
                           healthy = int (length ks) - deprecatedCount sc\<rparr>)))"

section \<open>The migrator\<close>

datatype action = Replaced | WouldReplace | Skipped

record action_record =
  dependency :: string
  action :: action
  alternative :: "jsval option"

datatype section_name = Dependencies | DevDependencies

record options =
  interactive :: bool
  dryRun :: bool
  jsonOutput :: bool
  refresh :: bool

text \<open>The local variables of \<^verbatim>\<open>migrateDependencies\<close>, and the process state.\<close>

record mig =
  pkg :: manifest
  modified :: bool
  results :: "action_record list"
  replacedCount :: int
  skippedCount :: int
  world :: state

fun get_section :: "manifest \<Rightarrow> section_name \<Rightarrow> deps option" where
  "get_section p Dependencies = dependencies p"
| "get_section p DevDependencies = devDependencies p"

text \<open>A change of \<^verbatim>\<open>pkg[section]\<close> in place; the loop runs only where the section is there.\<close>

fun upd_section :: "section_name \<Rightarrow> (deps \<Rightarrow> deps) \<Rightarrow> manifest \<Rightarrow> manifest" where
  "upd_section Dependencies f p = p\<lparr>dependencies := map_option f (dependencies p)\<rparr>"
| "upd_section DevDependencies f p = p\<lparr>devDependencies := map_option f (devDependencies p)\<rparr>"

text \<open>The question of line 209; its first four bytes are the UTF-8 of the arrows sign.\<close>

definition question :: "string \<Rightarrow> jsval \<Rightarrow> string" where
  "question dep alt =
     [CHR 0xF0, CHR 0x9F, CHR 0x94, CHR 0x84] @ '' Replace '' @ dep @ '' with '' @
     (if truthy alt then to_key alt else ''<none>'') @ ''? (y/N) ''"

text \<open>\<^verbatim>\<open>delete pkg[section][dep]; pkg[section][alt] = "latest"\<close>, lines 219-220.\<close>

definition replace_dep :: "string \<Rightarrow> jsval \<Rightarrow> deps \<Rightarrow> deps" where
  "replace_dep dep alt ds = assign_prop (to_key alt) (JStr ''latest'') (AList.delete dep ds)"

text \<open>The body of the migrator's inner loop, lines 198-236.\<close>

definition migrate_dep :: "env \<Rightarrow> options \<Rightarrow> section_name \<Rightarrow> string \<Rightarrow> mig \<Rightarrow> mig" where
  "migrate_dep e opts sec dep m =
     (case fetchNpmInfo e dep (refresh opts) (log_spin (SpinStart dep) (world m)) of
        (Inl err, w1) \<Rightarrow> m\<lparr>world := log_spin (SpinFail dep) w1\<rparr>
      | (Inr info, w1) \<Rightarrow>
          (case deprecatedMsg info of
             Inl err \<Rightarrow> m\<lparr>world := log_spin (SpinFail dep) w1\<rparr>
           | Inr msg \<Rightarrow>
               if truthy msg then
                 (case fetchAlternative e dep (refresh opts) w1 of
                    (Inl err, w2) \<Rightarrow> m\<lparr>world := log_spin (SpinFail dep) w2\<rparr>
                  | (Inr alt, w2) \<Rightarrow>
                      (case (if interactive opts
                             then askQuestion e (question dep alt) (log_spin (SpinStop dep) w2)
                             else (True, w2)) of
                         (doReplace, w3) \<Rightarrow>
                           if doReplace \<and> truthy alt then
                             if dryRun opts then
                               m\<lparr>results := results m @
                                    [\<lparr>dependency = dep, action = WouldReplace, alternative = Some alt\<rparr>],
                                  skippedCount := skippedCount m + 1,
                                  world := log_spin (SpinStop dep) w3\<rparr>
                             else
                               m\<lparr>pkg := upd_section sec (replace_dep dep alt) (pkg m),
                                  modified := True,
                                  results := results m @
                                    [\<lparr>dependency = dep, action = Replaced, alternative = Some alt\<rparr>],
                                  replacedCount := replacedCount m + 1,
                                  world := log_spin (SpinStop dep) w3\<rparr>
                           else
                             m\<lparr>results := results m @
                                  [\<lparr>dependency = dep, action = Skipped, alternative = None\<rparr>],
                                skippedCount := skippedCount m + 1,
                                world := log_spin (SpinStop dep) w3\<rparr>))
               else m\<lparr>world := log_spin (SpinStop dep) (log_spin (SpinSucceed dep) w1)\<rparr>))"

fun migrate_deps :: "env \<Rightarrow> options \<Rightarrow> section_name \<Rightarrow> string list \<Rightarrow> mig \<Rightarrow> mig" where
  "migrate_deps e opts sec [] m = m"
| "migrate_deps e opts sec (dep # ds) m = migrate_deps e opts sec ds (migrate_dep e opts sec dep m)"

text \<open>One round of the outer loop, lines 194-238: the names are \<^verbatim>\<open>Object.keys(pkg[section])\<close>,
  taken once, before the first of them is processed.\<close>

definition migrate_section :: "env \<Rightarrow> options \<Rightarrow> section_name \<Rightarrow> mig \<Rightarrow> mig" where
  "migrate_section e opts sec m =
     (case get_section (pkg m) sec of
        None \<Rightarrow> m
      | Some ds \<Rightarrow> migrate_deps e opts sec (map fst ds) m)"

text \<open>Lines 240-243: the write and the reinstall.\<close>

definition finish :: "env \<Rightarrow> options \<Rightarrow> mig \<Rightarrow> mig" where
  "finish e opts m =
     (if \<not> dryRun opts \<and> modified m
      then m\<lparr>world := runInstall (detectPackageManager e) (writePackageJson (pkg m) (world m))\<rparr>
      else m)"

text \<open>
  \<^verbatim>\<open>migrateDependencies({interactive, dryRun, jsonOutput, refresh})\<close>, lines 184-255:
  \<open>migrate_loop\<close> is the outer loop over the two sections, lines 186-238. The
  result holds the report (\<open>results\<close>, printed as JSON, or the two counters of the
  summary), the manifest in memory and the process state.
\<close>

definition migrate_loop :: "env \<Rightarrow> options \<Rightarrow> manifest \<Rightarrow> state \<Rightarrow> mig" where
  "migrate_loop e opts p s =
     foldl (\<lambda>m sec. migrate_section e opts sec m)
       \<lparr>pkg = p, modified = False, results = [], replacedCount = 0, skippedCount = 0,
        world = s\<rparr>
       [Dependencies, DevDependencies]"

definition migrateDependencies :: "env \<Rightarrow> options \<Rightarrow> state \<Rightarrow> error + mig" where
  "migrateDependencies e opts s =
     (case pkg_file s of
        None \<Rightarrow> Inl ProcessExit
      | Some p \<Rightarrow> Inr (finish e opts (migrate_loop e opts p s)))"

section \<open>Example inputs\<close>

text \<open>A process that has just started with an empty cache, outside any project.\<close>

definition fresh :: state where
  "fresh = \<lparr>cache = CStore Map.empty, requests = [], prompts = [], spinner = [], pkg_file = None,
            writes = [], installs = []\<rparr>"

text \<open>
  An environment that answers requests from a table of URLs (any other request fails) and
  questions from a list of typed lines (then empty lines); no lock file exists.
\<close>

definition scripted :: "(string \<times> response) list \<Rightarrow> string list \<Rightarrow> env" where
  "scripted tbl answers =
     \<lparr>net = (\<lambda>n url. case map_of tbl url of Some r \<Rightarrow> r | None \<Rightarrow> NetError),
      operator = (\<lambda>n q. if n < length answers then answers ! n else []),
      lockfile = (\<lambda>f. False),
      str_positive = (\<lambda>s. False)\<rparr>"

text \<open>A registry document whose latest version \<^verbatim>\<open>1.3.0\<close> carries the message \<open>msg\<close>.\<close>

definition info_with :: "jsval \<Rightarrow> jsval" where
  "info_with msg =
     JObj [(''dist-tags'', JObj [(''latest'', JStr ''1.3.0'')]),
           (''versions'', JObj [(''1.3.0'', JObj [(''deprecated'', msg)])])]"

text \<open>A search document whose results are the packages named \<open>names\<close>.\<close>

definition found :: "string list \<Rightarrow> jsval" where
  "found names =
     JObj [(''results'', JArr (map (\<lambda>n. JObj [(''package'', JObj [(''name'', JStr n)])]) names))]"

text \<open>
  An environment in which every listed package is deprecated, with the message
  \<^verbatim>\<open>gone\<close>, and the search for its replacement finds the name listed beside it.
\<close>

definition deprecating :: "(string \<times> string) list \<Rightarrow> string list \<Rightarrow> env" where
  "deprecating pairs answers =
     scripted
       (concat (map (\<lambda>(d, a). [(registry_url d, Parsed (info_with (JStr ''gone''))),
                                (search_url d, Parsed (found [a]))]) pairs))
       answers"

text \<open>A fresh process in a project whose \<^verbatim>\<open>package.json\<close> has the two sections given.\<close>

definition project :: "deps option \<Rightarrow> deps option \<Rightarrow> state" where
  "project ds dds =
     fresh\<lparr>pkg_file := Some \<lparr>dependencies = ds, devDependencies = dds, other = []\<rparr>\<rparr>"

text \<open>The default options of line 184: every flag off.\<close>

definition defaults :: options where
  "defaults = \<lparr>interactive = False, dryRun = False, jsonOutput = False, refresh = False\<rparr>"

section \<open>Observations on a run\<close>

text \<open>
  One spinner is started for each name visited (lines 138 and 198); it succeeds for a
  name found healthy and fails for a name whose check failed.
\<close>

definition started :: "spin list \<Rightarrow> string list" where
  "started evs = concat (map (\<lambda>ev. case ev of SpinStart d \<Rightarrow> [d] | _ \<Rightarrow> []) evs)"

definition succeeded :: "spin list \<Rightarrow> string list" where
  "succeeded evs = concat (map (\<lambda>ev. case ev of SpinSucceed d \<Rightarrow> [d] | _ \<Rightarrow> []) evs)"

definition failed :: "spin list \<Rightarrow> string list" where
  "failed evs = concat (map (\<lambda>ev. case ev of SpinFail d \<Rightarrow> [d] | _ \<Rightarrow> []) evs)"

text \<open>\<^verbatim>\<open>Object.keys(pkg[section])\<close>, or no name at all where the section is missing.\<close>

definition section_keys :: "manifest \<Rightarrow> section_name \<Rightarrow> string list" where
  "section_keys p sec = (case get_section p sec of None \<Rightarrow> [] | Some ds \<Rightarrow> map fst ds)"


text \<open>The cache holds nothing usable under \<open>k\<close>, or it holds \<open>v\<close> there.\<close>

definition cache_agrees :: "state \<Rightarrow> string \<Rightarrow> jsval \<Rightarrow> bool" where
  "cache_agrees w k v = (\<not> truthy (cache_get w k) \<or> cache_get w k = v)"

text \<open>The variable \<^verbatim>\<open>cache\<close> holds an object, so that entries can be read and written.\<close>

definition cache_is_store :: "state \<Rightarrow> bool" where
  "cache_is_store w = (case cache w of CStore c \<Rightarrow> True | CPrimitive \<Rightarrow> False | CNull \<Rightarrow> False)"

text \<open>The report of a finished run, and the manifest it ends with in memory.\<close>

definition report_of :: "error + mig \<Rightarrow> action_record list" where
  "report_of r = (case r of Inl err \<Rightarrow> [] | Inr m \<Rightarrow> results m)"

definition manifest_of :: "error + mig \<Rightarrow> manifest option" where
  "manifest_of r = (case r of Inl err \<Rightarrow> None | Inr m \<Rightarrow> Some (pkg m))"


section \<open>Cache lemmas\<close>

lemmas npm_defs = fetchNpmInfo_def request_def cache_get_def cache_read_def cache_write_def

lemmas alt_defs = fetchAlternative_def request_def cache_get_def cache_read_def cache_write_def

lemmas fetch_splits = response.splits sum.splits cache_var.splits if_splits







lemma show_nat_0 [simp]: "show_nat 0 = ''0''"
  by (simp add: show_nat.simps)

lemma show_nat_digits: "show_nat n \<noteq> [] \<and> set (show_nat n) \<subseteq> set ''0123456789''"
proof (induction n rule: show_nat.induct)
  case (1 n)
  have d: "n < 10 \<Longrightarrow> ''0123456789'' ! n \<in> set ''0123456789''" for n :: nat
    by (rule nth_mem) simp
  show ?case
  proof (cases "n < 10")
    case True
    with d [of n] show ?thesis by (subst show_nat.simps, subst show_nat.simps) simp
  next
    case False
    have "n mod 10 < 10" by simp
    from d [OF this] 1 False show ?thesis
      by (subst show_nat.simps, subst (2) show_nat.simps) simp
  qed
qed

lemma array_index_letter:
  "k = [] \<or> hd k \<notin> set ''0123456789'' \<Longrightarrow> array_index k = None"
  using show_nat_digits [of "read_nat k"]
  by (cases k) (auto simp: array_index_def)


lemma keys_insert_index:
  "fst ` set (insert_index n (k, v) kvs) = insert k (fst ` set kvs)"
  by (induction kvs) (auto split: option.splits if_splits)

lemma distinct_insert_index:
  "k \<notin> fst ` set kvs \<Longrightarrow> distinct (map fst kvs) \<Longrightarrow> distinct (map fst (insert_index n (k, v) kvs))"
  using keys_insert_index
  by (induction kvs) (auto split: option.splits if_splits)





lemmas prop_defs = assign_prop_def put_own_def array_index_letter

lemma own_prop_JObj:
  "own_prop (JObj kvs) k = (case map_of kvs k of Some x \<Rightarrow> x | None \<Rightarrow> JUndefined)"
  by (simp add: own_prop_def)

lemma own_prop_length: "own_prop (JArr xs) ''length'' = js_nat (length xs)"
  by (simp add: own_prop_def)

lemma own_prop_first: "own_prop (JArr (x # xs)) ''0'' = x"
  by (simp add: own_prop_def upt_conv_Cons del: upt_Suc)

lemmas read_defs = get_prop_def opt_prop_def own_prop_JObj own_prop_length own_prop_first js_nat_def

lemmas fetch_defs = fetchNpmInfo_def alt_defs
  suggestion_of_def registry_url_def search_url_def

lemmas example_defs = fresh_def scripted_def info_with_def found_def deprecating_def
  project_def defaults_def

section \<open>The lookup cache\<close>




section \<open>The alternative finder\<close>

lemma loadCache_store:
  "loadCache NoFile = CStore Map.empty" "loadCache BadJson = CStore Map.empty"
  "loadCache (Json (JObj kvs)) = CStore (map_of kvs)" "loadCache (Json JNull) = CNull"
  by (simp_all add: loadCache_def)




section \<open>What a lookup leaves alone\<close>

lemma fetchNpmInfo_frame:
  assumes "fetchNpmInfo e p rf s = (r, s')"
  shows "pkg_file s' = pkg_file s \<and> writes s' = writes s \<and> installs s' = installs s \<and>
         spinner s' = spinner s \<and> prompts s' = prompts s"
  using assms
  by (auto simp: npm_defs split: fetch_splits)

lemma fetchAlternative_frame:
  assumes "fetchAlternative e p rf s = (r, s')"
  shows "pkg_file s' = pkg_file s \<and> writes s' = writes s \<and> installs s' = installs s \<and>
         spinner s' = spinner s \<and> prompts s' = prompts s"
  using assms
  by (auto simp: alt_defs split: fetch_splits)

lemma askQuestion_frame:
  assumes "askQuestion e q s = (r, s')"
  shows "pkg_file s' = pkg_file s \<and> writes s' = writes s \<and> installs s' = installs s \<and>
         spinner s' = spinner s"
  using assms by (auto simp: askQuestion_def)

lemma log_spin_frame [simp]:
  "pkg_file (log_spin ev s) = pkg_file s" "writes (log_spin ev s) = writes s"
  "installs (log_spin ev s) = installs s" "spinner (log_spin ev s) = spinner s @ [ev]"
  by (simp_all add: log_spin_def)


section \<open>One step of the migrator\<close>




lemma started_append [simp]: "started (xs @ ys) = started xs @ started ys"
  by (simp add: started_def)

lemma started_simps [simp]:
  "started [] = []" "started (SpinStart d # evs) = d # started evs"
  "started (SpinStop d # evs) = started evs" "started (SpinFail d # evs) = started evs"
  "started (SpinSucceed d # evs) = started evs"
  by (simp_all add: started_def)

lemma migrate_dep_started:
  "started (spinner (world (migrate_dep e opts sec dep m))) =
   started (spinner (world m)) @ [dep]"
  by (auto simp: migrate_dep_def split: prod.splits sum.splits if_splits
      dest!: fetchNpmInfo_frame fetchAlternative_frame askQuestion_frame)

lemma upd_section_other:
  "sec' \<noteq> sec \<Longrightarrow> get_section (upd_section sec f p) sec' = get_section p sec'"
  by (cases sec; cases sec') simp_all


lemma upd_section_rest [simp]: "other (upd_section sec f p) = other p"
  by (cases sec) simp_all

lemma migrate_dep_other_section:
  "sec' \<noteq> sec \<Longrightarrow>
   get_section (pkg (migrate_dep e opts sec dep m)) sec' = get_section (pkg m) sec'"
  by (auto simp: migrate_dep_def upd_section_other split: prod.splits sum.splits if_splits)

lemma migrate_dep_rest:
  "other (pkg (migrate_dep e opts sec dep m)) = other (pkg m)"
  by (auto simp: migrate_dep_def split: prod.splits sum.splits if_splits)


section \<open>The loops of the migrator\<close>





lemma migrate_deps_started:
  "started (spinner (world (migrate_deps e opts sec ds m))) = started (spinner (world m)) @ ds"
  by (induction ds arbitrary: m) (simp_all add: migrate_dep_started)

lemma migrate_deps_other_section:
  "sec' \<noteq> sec \<Longrightarrow>
   get_section (pkg (migrate_deps e opts sec ds m)) sec' = get_section (pkg m) sec'"
  by (induction ds arbitrary: m) (simp_all add: migrate_dep_other_section)

lemma migrate_deps_rest:
  "other (pkg (migrate_deps e opts sec ds m)) = other (pkg m)"
  by (induction ds arbitrary: m) (simp_all add: migrate_dep_rest)


text \<open>The outer loop, unfolded: the first section, then the second.\<close>

lemma migrate_loop_unfold:
  "migrate_loop e opts p s =
     migrate_section e opts DevDependencies
       (migrate_section e opts Dependencies
          \<lparr>pkg = p, modified = False, results = [], replacedCount = 0, skippedCount = 0,
           world = s\<rparr>)"
  by (simp add: migrate_loop_def)





lemma migrate_section_started:
  "started (spinner (world (migrate_section e opts sec m))) =
   started (spinner (world m)) @ section_keys (pkg m) sec"
  by (simp add: migrate_section_def section_keys_def migrate_deps_started split: option.splits)

lemma migrate_section_other_section:
  "sec' \<noteq> sec \<Longrightarrow>
   get_section (pkg (migrate_section e opts sec m)) sec' = get_section (pkg m) sec'"
  by (simp add: migrate_section_def migrate_deps_other_section split: option.splits)




lemma migrate_section_keys_other:
  "sec' \<noteq> sec \<Longrightarrow>
   section_keys (pkg (migrate_section e opts sec m)) sec' = section_keys (pkg m) sec'"
  by (simp add: section_keys_def migrate_section_other_section)

lemma migrate_loop_started:
  "started (spinner (world (migrate_loop e opts p s))) =
   started (spinner s) @ section_keys p Dependencies @ section_keys p DevDependencies"
  by (simp add: migrate_loop_unfold migrate_section_started migrate_section_keys_other)



section \<open>A registry without deprecations\<close>

lemma cache_log_spin [simp]: "cache_get (log_spin ev s) k = cache_get s k"
  by (simp add: cache_get_def log_spin_def)





section \<open>The end of a run\<close>

lemma finish_world:
  "writes (world (finish e opts m)) =
     writes (world m) @ (if \<not> dryRun opts \<and> modified m then [pkg m] else []) \<and>
   installs (world (finish e opts m)) =
     installs (world m) @
       (if \<not> dryRun opts \<and> modified m then [install_command (detectPackageManager e)] else []) \<and>
   pkg_file (world (finish e opts m)) =
     (if \<not> dryRun opts \<and> modified m then Some (pkg m) else pkg_file (world m)) \<and>
   spinner (world (finish e opts m)) = spinner (world m) \<and>
   requests (world (finish e opts m)) = requests (world m) \<and>
   prompts (world (finish e opts m)) = prompts (world m) \<and>
   cache (world (finish e opts m)) = cache (world m)"
  by (simp add: finish_def writePackageJson_def runInstall_def)

lemma finish_locals [simp]:
  "pkg (finish e opts m) = pkg m" "results (finish e opts m) = results m"
  "modified (finish e opts m) = modified m" "replacedCount (finish e opts m) = replacedCount m"
  by (simp_all add: finish_def)

lemmas run_defs = migrateDependencies_def migrate_loop_def migrate_section_def migrate_dep_def
  finish_def deprecatedMsg_def log_spin_def writePackageJson_def runInstall_def
  install_command_def detectPackageManager_def askQuestion_def question_def replace_dep_def
  toLowerCase_def startsWith_def prop_defs

section \<open>Writing and reinstalling\<close>



section \<open>The names a run visits\<close>

lemma fetchNpmInfo_asks:
  "fetchNpmInfo e p rf s = (r, s') \<Longrightarrow> set (requests s') \<subseteq> insert (registry_url p) (set (requests s))"
  by (auto simp: npm_defs split: fetch_splits)

lemma fetchAlternative_asks:
  "fetchAlternative e p rf s = (r, s') \<Longrightarrow> set (requests s') \<subseteq> insert (search_url p) (set (requests s))"
  by (auto simp: alt_defs split: fetch_splits)

lemma askQuestion_asks: "askQuestion e q s = (r, s') \<Longrightarrow> requests s' = requests s"
  by (auto simp: askQuestion_def)

lemma log_spin_asks [simp]: "requests (log_spin ev s) = requests s"
  by (simp add: log_spin_def)

lemma migrate_dep_asks:
  "set (requests (world (migrate_dep e opts sec d m))) \<subseteq>
   {registry_url d, search_url d} \<union> set (requests (world m))"
proof -
  obtain r s1 where f: "fetchNpmInfo e d (refresh opts) (log_spin (SpinStart d) (world m)) = (r, s1)"
    by (cases "fetchNpmInfo e d (refresh opts) (log_spin (SpinStart d) (world m))")
  obtain a s2 where g: "fetchAlternative e d (refresh opts) s1 = (a, s2)"
    by (cases "fetchAlternative e d (refresh opts) s1")
  from fetchNpmInfo_asks [OF f]
  have 1: "set (requests s1) \<subseteq> {registry_url d, search_url d} \<union> set (requests (world m))"
    by auto
  with fetchAlternative_asks [OF g]
  have 2: "set (requests s2) \<subseteq> {registry_url d, search_url d} \<union> set (requests (world m))"
    by auto
  show ?thesis
    using f g 1 2
    by (auto simp: migrate_dep_def askQuestion_def split: sum.splits)
qed

lemma migrate_deps_asks:
  "set (requests (world (migrate_deps e opts sec ds m))) \<subseteq>
   registry_url ` set ds \<union> search_url ` set ds \<union> set (requests (world m))"
proof (induction ds arbitrary: m)
  case Nil
  then show ?case by simp
next
  case (Cons d ds)
  from Cons.IH [of "migrate_dep e opts sec d m"] migrate_dep_asks [of e opts sec d m]
  show ?case by auto
qed

lemma migrate_section_asks:
  "set (requests (world (migrate_section e opts sec m))) \<subseteq>
   registry_url ` set (section_keys (pkg m) sec) \<union> search_url ` set (section_keys (pkg m) sec) \<union>
   set (requests (world m))"
proof (cases "get_section (pkg m) sec")
  case None
  then show ?thesis by (simp add: migrate_section_def)
next
  case (Some ds)
  then have "migrate_section e opts sec m = migrate_deps e opts sec (map fst ds) m"
    and "section_keys (pkg m) sec = map fst ds"
    by (simp_all add: migrate_section_def section_keys_def)
  then show ?thesis
    using migrate_deps_asks [of e opts sec "map fst ds" m] by (simp only:)
qed

lemma migrate_loop_asks:
  "set (requests (world (migrate_loop e opts p s))) \<subseteq>
   registry_url ` set (section_keys p Dependencies @ section_keys p DevDependencies) \<union>
   search_url ` set (section_keys p Dependencies @ section_keys p DevDependencies) \<union>
   set (requests s)"
proof -
  let ?m0 = "\<lparr>pkg = p, modified = False, results = [], replacedCount = 0, skippedCount = 0,
              world = s\<rparr>"
  let ?m1 = "migrate_section e opts Dependencies ?m0"
  have k: "section_keys (pkg ?m1) DevDependencies = section_keys p DevDependencies"
    by (simp add: migrate_section_keys_other)
  have a: "set (requests (world ?m1)) \<subseteq>
      registry_url ` set (section_keys p Dependencies) \<union>
      search_url ` set (section_keys p Dependencies) \<union> set (requests s)"
    using migrate_section_asks [of e opts Dependencies ?m0] by simp
  have b: "set (requests (world (migrate_section e opts DevDependencies ?m1))) \<subseteq>
      registry_url ` set (section_keys p DevDependencies) \<union>
      search_url ` set (section_keys p DevDependencies) \<union> set (requests (world ?m1))"
    using migrate_section_asks [of e opts DevDependencies ?m1] unfolding k .
  from a b show ?thesis
    unfolding migrate_loop_unfold set_append image_Un by blast
qed

lemma registry_url_inj [simp]: "(registry_url x = registry_url y) = (x = y)"
  by (simp add: registry_url_def)

lemma registry_url_not_search [simp]: "registry_url x \<noteq> search_url y"
  by (simp add: registry_url_def search_url_def)

lemma finish_spinner [simp]: "spinner (world (finish e opts m)) = spinner (world m)"
  and finish_requests [simp]: "requests (world (finish e opts m)) = requests (world m)"
  using finish_world [of e opts m] by simp_all

text \<open>
  C9, as amended. The names a section's loop visits are the keys the section has when
  the loop begins, in their order, whatever the loop does to the section; over the run
  they are the keys of \<^verbatim>\<open>dependencies\<close>, then those of \<^verbatim>\<open>devDependencies\<close>, as the
  manifest was read. So a name that is in neither section of the manifest as read, such
  as an alternative inserted under a new name, is never looked up in the registry during
  the run. An alternative whose name is one of those keys is visited like every other key.
\<close>

theorem visits_fixed_at_loop_start:
  "started (spinner (world (migrate_section e opts sec m0))) =
     started (spinner (world m0)) @ section_keys (pkg m0) sec \<and>
   (migrateDependencies e opts s = Inr m \<and> pkg_file s = Some p \<longrightarrow>
      started (spinner (world m)) =
        started (spinner s) @ section_keys p Dependencies @ section_keys p DevDependencies \<and>
      (x \<notin> set (section_keys p Dependencies) \<and> x \<notin> set (section_keys p DevDependencies) \<and>
       registry_url x \<notin> set (requests s)
       \<longrightarrow> registry_url x \<notin> set (requests (world m))))"
proof (intro conjI impI)
  show "started (spinner (world (migrate_section e opts sec m0))) =
     started (spinner (world m0)) @ section_keys (pkg m0) sec"
    by (rule migrate_section_started)
next
  assume "migrateDependencies e opts s = Inr m \<and> pkg_file s = Some p"
  then have m: "m = finish e opts (migrate_loop e opts p s)"
    by (auto simp: migrateDependencies_def)
  show "started (spinner (world m)) =
        started (spinner s) @ section_keys p Dependencies @ section_keys p DevDependencies"
    unfolding m by (simp add: migrate_loop_started)
  assume x: "x \<notin> set (section_keys p Dependencies) \<and> x \<notin> set (section_keys p DevDependencies) \<and>
       registry_url x \<notin> set (requests s)"
  show "registry_url x \<notin> set (requests (world m))"
  proof
    assume "registry_url x \<in> set (requests (world m))"
    then have "registry_url x \<in> set (requests (world (migrate_loop e opts p s)))"
      unfolding m by simp
    with migrate_loop_asks [of e opts p s] x show False
      by auto
  qed
qed

text \<open>
  The theorem at work on the first scenario of the specification: \<^verbatim>\<open>left-pad\<close> is
  visited, and \<^verbatim>\<open>string-pad\<close>, inserted in its place, is not looked up.
\<close>

theorem visits_fixed_at_loop_start_witness:
  "(\<exists>m. migrateDependencies (deprecating [(''left-pad'', ''string-pad'')] []) defaults
          (project (Some [(''left-pad'', JStr ''^1.0.0'')]) None) = Inr m \<and>
        started (spinner (world m)) = [''left-pad''] \<and>
        manifest_of (Inr m) =
          Some \<lparr>dependencies = Some [(''string-pad'', JStr ''latest'')], devDependencies = None,
                other = []\<rparr> \<and>
        registry_url ''string-pad'' \<notin> set (requests (world m)))"
proof -
  let ?e = "deprecating [(''left-pad'', ''string-pad'')] []"
  let ?s = "project (Some [(''left-pad'', JStr ''^1.0.0'')]) None"
  let ?p = "\<lparr>dependencies = Some [(''left-pad'', JStr ''^1.0.0'')], devDependencies = None,
             other = []\<rparr>"
  let ?m = "finish ?e defaults (migrate_loop ?e defaults ?p ?s)"
  have h: "migrateDependencies ?e defaults ?s = Inr ?m" "pkg_file ?s = Some ?p"
    "started (spinner ?s) = []" "requests ?s = []"
    by (simp_all add: migrateDependencies_def example_defs)
  have k: "section_keys ?p Dependencies = [''left-pad'']" "section_keys ?p DevDependencies = []"
    by (simp_all add: section_keys_def)
  have v: "pkg ?m = \<lparr>dependencies = Some [(''string-pad'', JStr ''latest'')],
                      devDependencies = None, other = []\<rparr>"
    by (simp add: run_defs fetch_defs read_defs example_defs)
  from visits_fixed_at_loop_start [of ?e defaults Dependencies
      "\<lparr>pkg = ?p, modified = False, results = [], replacedCount = 0, skippedCount = 0,
        world = ?s\<rparr>" ?s ?m ?p "''string-pad''"] h k v
  show ?thesis
    by (simp add: manifest_of_def)
qed

text \<open>
  C9 as stated fails: \<^verbatim>\<open>string-pad\<close>, already a dependency, is inserted as the
  replacement of \<^verbatim>\<open>left-pad\<close> and then is itself found deprecated and replaced by
  \<^verbatim>\<open>pad\<close>, in the same run.
\<close>

theorem inserted_alternative_counterexample:
  "report_of (migrateDependencies
      (deprecating [(''left-pad'', ''string-pad''), (''string-pad'', ''pad'')] []) defaults
      (project (Some [(''left-pad'', JStr ''^1.0.0''), (''string-pad'', JStr ''^2.0.0'')]) None)) =
     [\<lparr>dependency = ''left-pad'', action = Replaced, alternative = Some (JStr ''string-pad'')\<rparr>,
      \<lparr>dependency = ''string-pad'', action = Replaced, alternative = Some (JStr ''pad'')\<rparr>] \<and>
   manifest_of (migrateDependencies
      (deprecating [(''left-pad'', ''string-pad''), (''string-pad'', ''pad'')] []) defaults
      (project (Some [(''left-pad'', JStr ''^1.0.0''), (''string-pad'', JStr ''^2.0.0'')]) None)) =
     Some \<lparr>dependencies = Some [(''pad'', JStr ''latest'')], devDependencies = None, other = []\<rparr>"
  by (simp add: report_of_def manifest_of_def run_defs fetch_defs read_defs example_defs)

section \<open>A dependency the registry always reports deprecated\<close>

lemma cache_agrees_log_spin [simp]: "cache_agrees (log_spin ev w) k v = cache_agrees w k v"
  by (simp add: cache_agrees_def)

lemma cache_is_store_log_spin [simp]: "cache_is_store (log_spin ev w) = cache_is_store w"
  by (simp add: cache_is_store_def log_spin_def)

lemma fetchNpmInfo_store:
  assumes "fetchNpmInfo e p rf s = (r, s')"
  shows "cache_is_store s' = cache_is_store s \<and> ((\<exists>v. r = Inr v) \<longrightarrow> cache_is_store s)"
  using assms
  by (auto simp: npm_defs cache_is_store_def split: fetch_splits)

lemma fetchAlternative_store:
  assumes "fetchAlternative e p rf s = (r, s')"
  shows "cache_is_store s' = cache_is_store s \<and> (cache_is_store s \<longrightarrow> (\<exists>v. r = Inr v))"
proof -
  have "\<exists>v. fst (fetchAlternative e p rf s) = Inr v" if "cache_is_store s"
    using that by (auto simp: alt_defs cache_is_store_def split: fetch_splits)
  moreover have "cache_is_store (snd (fetchAlternative e p rf s)) = cache_is_store s"
    by (auto simp: alt_defs cache_is_store_def split: fetch_splits)
  ultimately show ?thesis
    using assms by simp
qed

















section \<open>Replacing a dependency\<close>







text \<open>
  Where the new entry goes: a name that is an array index is enumerated before the names
  that are not, whatever was deleted; any other new name goes last; a name that is
  already there keeps its place.
\<close>

lemma replace_dep_places:
  "replace_dep ''left-pad'' (JStr ''7'')
     [(''3'', JStr ''1.0.0''), (''left-pad'', JStr ''^1.0.0''), (''zod'', JStr ''^3.0.0'')] =
     [(''3'', JStr ''1.0.0''), (''7'', JStr ''latest''), (''zod'', JStr ''^3.0.0'')]"
  "replace_dep ''left-pad'' (JStr ''string-pad'')
     [(''left-pad'', JStr ''^1.0.0''), (''zod'', JStr ''^3.0.0'')] =
     [(''zod'', JStr ''^3.0.0''), (''string-pad'', JStr ''latest'')]"
  "replace_dep ''left-pad'' (JStr ''zod'')
     [(''zod'', JStr ''^3.0.0''), (''left-pad'', JStr ''^1.0.0'')] =
     [(''zod'', JStr ''latest'')]"
  "replace_dep ''left-pad'' (JStr ''__proto__'')
     [(''left-pad'', JStr ''^1.0.0''), (''zod'', JStr ''^3.0.0'')] =
     [(''zod'', JStr ''^3.0.0'')]"
  by (simp_all add: replace_dep_def assign_prop_def put_own_def array_index_def read_nat_def
      show_nat.simps)




section \<open>Dry runs\<close>





section \<open>A name in both sections\<close>





section \<open>Asking the operator\<close>




section \<open>Documents without a deprecation message\<close>

lemma succeeded_simps [simp]:
  "succeeded [] = []" "succeeded (SpinSucceed d # evs) = d # succeeded evs"
  "succeeded (SpinStop d # evs) = succeeded evs" "succeeded (SpinFail d # evs) = succeeded evs"
  "succeeded (SpinStart d # evs) = succeeded evs"
  by (simp_all add: succeeded_def)

lemma failed_simps [simp]:
  "failed [] = []" "failed (SpinFail d # evs) = d # failed evs"
  "failed (SpinStop d # evs) = failed evs" "failed (SpinSucceed d # evs) = failed evs"
  "failed (SpinStart d # evs) = failed evs"
  by (simp_all add: failed_def)

lemmas scan_defs = scanDependencies_def scan_dep_def spread_def deprecatedMsg_def log_spin_def
  put_own_def array_index_letter







section \<open>The summary of a scan\<close>

lemma succeeded_append [simp]: "succeeded (xs @ ys) = succeeded xs @ succeeded ys"
  by (simp add: succeeded_def)

lemma failed_append [simp]: "failed (xs @ ys) = failed xs @ failed ys"
  by (simp add: failed_def)

lemma scan_dep_counts:
  "deprecatedCount (scan_dep e js rf d sc) +
     int (length (succeeded (spinner (scan_world (scan_dep e js rf d sc))))) +
     int (length (failed (spinner (scan_world (scan_dep e js rf d sc))))) =
   deprecatedCount sc + int (length (succeeded (spinner (scan_world sc)))) +
     int (length (failed (spinner (scan_world sc)))) + 1"
proof -
  obtain r w1 where f: "fetchNpmInfo e d rf (log_spin (SpinStart d) (scan_world sc)) = (r, w1)"
    by (cases "fetchNpmInfo e d rf (log_spin (SpinStart d) (scan_world sc))")
  obtain ra w2 where g: "fetchAlternative e d rf w1 = (ra, w2)"
    by (cases "fetchAlternative e d rf w1")
  have s1: "spinner w1 = spinner (scan_world sc) @ [SpinStart d]"
    using fetchNpmInfo_frame [OF f] by simp
  have s2: "spinner w2 = spinner w1"
    using fetchAlternative_frame [OF g] by simp
  have "\<exists>v. ra = Inr v" if "\<exists>v. r = Inr v"
    using that fetchNpmInfo_store [OF f] fetchAlternative_store [OF g] by auto
  then show ?thesis
    using f g s1 s2 by (auto simp: scan_dep_def split: sum.splits)
qed

lemma scan_deps_counts:
  "deprecatedCount (scan_deps e js rf ds sc) +
     int (length (succeeded (spinner (scan_world (scan_deps e js rf ds sc))))) +
     int (length (failed (spinner (scan_world (scan_deps e js rf ds sc))))) =
   deprecatedCount sc + int (length (succeeded (spinner (scan_world sc)))) +
     int (length (failed (spinner (scan_world sc)))) + int (length ds)"
proof (induction ds arbitrary: sc)
  case Nil
  then show ?case by simp
next
  case (Cons d ds)
  from Cons.IH [of "scan_dep e js rf d sc"] scan_dep_counts [of e js rf d sc]
  show ?case by simp
qed

text \<open>
  What the summary's healthy count is, in every scan: the names found healthy and the
  names whose check failed, together.
\<close>

lemma healthy_counts_failures:
  assumes "scanDependencies e False rf s = Inr (sc, Some sm)"
  shows "healthy sm =
           int (length (succeeded (spinner (scan_world sc)))) -
             int (length (succeeded (spinner s))) +
           (int (length (failed (spinner (scan_world sc)))) - int (length (failed (spinner s))))"
    and "deprecated_found sm + healthy sm = total sm"
proof -
  from assms obtain p where p: "pkg_file s = Some p"
    by (auto simp: scanDependencies_def split: option.splits)
  let ?ks = "map fst (spread (dependencies p) (devDependencies p))"
  let ?sc = "scan_deps e False rf ?ks \<lparr>verdicts = [], deprecatedCount = 0, scan_world = s\<rparr>"
  from assms p have sc: "sc = ?sc"
    and sm: "sm = \<lparr>total = int (length ?ks), deprecated_found = deprecatedCount ?sc,
                   healthy = int (length ?ks) - deprecatedCount ?sc\<rparr>"
    by (auto simp: scanDependencies_def Let_def)
  from scan_deps_counts [of e False rf ?ks "\<lparr>verdicts = [], deprecatedCount = 0, scan_world = s\<rparr>"]
  show "healthy sm =
           int (length (succeeded (spinner (scan_world sc)))) -
             int (length (succeeded (spinner s))) +
           (int (length (failed (spinner (scan_world sc)))) - int (length (failed (spinner s))))"
    unfolding sc sm by simp
  show "deprecated_found sm + healthy sm = total sm"
    unfolding sm by simp
qed

text \<open>
  C5 does not hold of the code: the summary's healthy count is the total minus the
  deprecated count (line 180), so a dependency whose lookup failed is counted healthy.
  With the network down, the one dependency of the manifest fails its check, and the
  summary reads total 1, deprecated 0, healthy 1.
\<close>

theorem failed_lookup_counted_healthy:
  "\<exists>sc. scanDependencies (scripted [] []) False False
           (project (Some [(''left-pad'', JStr ''^1.0.0'')]) None) =
          Inr (sc, Some \<lparr>total = 1, deprecated_found = 0, healthy = 1\<rparr>) \<and>
        failed (spinner (scan_world sc)) = [''left-pad''] \<and>
        succeeded (spinner (scan_world sc)) = [] \<and> verdicts sc = []"
  by (simp add: scan_defs fetch_defs read_defs example_defs)

end
